theory Spec2Isabelle
  imports Complex_Main
begin

section \<open>The mission controller\<close>

text \<open>
  The controller polls a remote simulator and issues relative motion commands. Everything
  it observes comes from outside: the wall clock, the answers of the simulator to the
  collision-count request, and the random number generator. The model takes these three
  as the \<open>world\<close> the mission runs in and records, in order, every request the mission
  sends and every pause it makes.

  Numbers. Python's floats are modelled as the reals they represent: \<open>+\<close>, \<open>-\<close>, \<open>*\<close> and
  \<open>%\<close> are exact here, rounding is not modelled. Collision counts are Python ints,
  modelled as \<open>int\<close>. What the controller prints is not modelled.
\<close>

subsection \<open>Tuning parameters\<close>

definition FORWARD_SPEED :: real where
  "FORWARD_SPEED = 25"

definition TURN_SPEED :: real where
  "TURN_SPEED = 25"

definition AVOIDANCE_BACKUP :: real where
  "AVOIDANCE_BACKUP = - 25"

definition run_duration_seconds :: real where
  "run_duration_seconds = 90"

subsection \<open>Library operations the controller uses\<close>

text \<open>
  Python's \<open>x % y\<close> on floats, for a divisor \<open>y > 0\<close> (the controller only ever divides
  by 360): the result has the sign of the divisor, \<open>x - y * floor (x / y)\<close>.
\<close>

definition py_mod :: "real \<Rightarrow> real \<Rightarrow> real" where
  "py_mod x y = x - y * of_int \<lfloor>x / y\<rfloor>"

text \<open>\<open>np.clip(a, a_min, a_max)\<close> is \<open>minimum(a_max, maximum(a, a_min))\<close>.\<close>

definition np_clip :: "real \<Rightarrow> real \<Rightarrow> real \<Rightarrow> real" where
  "np_clip a a_min a_max = min a_max (max a a_min)"

text \<open>
  \<open>random.uniform(a, b)\<close> is \<open>a + (b - a) * random()\<close>; the third argument is the value
  \<open>random()\<close> returned, a number in \<open>[0, 1)\<close>.
\<close>

definition uniform :: "real \<Rightarrow> real \<Rightarrow> real \<Rightarrow> real" where
  "uniform a b u = a + (b - a) * u"

subsection \<open>The simulator client\<close>

text \<open>
  What the mission does to the outside, in the order it does it: the four requests and
  \<open>time.sleep\<close>. A request that fails is still a request sent; \<open>set_goal\<close>,
  \<open>reset_simulation\<close> and \<open>move_robot_relative\<close> swallow every exception and return
  nothing, so their outcome never reaches the controller.
\<close>

datatype call =
    Reset
  | SetGoal string
  | MoveRel real real
  | GetCollisions
  | Sleep real

text \<open>
  The outcome of \<open>requests.get(SERVER_URL/collisions)\<close> followed by \<open>response.json()\<close>:
  the request raises (\<open>NetworkError\<close>), the body is not JSON so that \<open>json()\<close> raises
  (\<open>MalformedBody\<close>), the body is JSON but not an object so that \<open>.get\<close> raises
  (\<open>NotAnObject\<close>), or the body is an object, given by its \<open>count\<close> field when it has
  one. The simulator's interface fixes the field as an integer.
\<close>

datatype response =
    NetworkError
  | MalformedBody
  | NotAnObject
  | Object "int option"

text \<open>
  \<open>get_collision_count\<close>: \<open>response.json().get('count', 0)\<close>, and \<open>-1\<close> from the
  \<open>except Exception\<close> branch.
\<close>

fun get_collision_count :: "response \<Rightarrow> int" where
  "get_collision_count (Object (Some count)) = count"
| "get_collision_count (Object None) = 0"
| "get_collision_count NetworkError = - 1"
| "get_collision_count MalformedBody = - 1"
| "get_collision_count NotAnObject = - 1"

subsection \<open>The world and the state of a mission\<close>

text \<open>
  \<open>clock w k\<close> is what the \<open>k\<close>-th call of \<open>time.time()\<close> returns, \<open>collisions w k\<close> the
  outcome of the \<open>k\<close>-th collision-count request, \<open>random01 w k\<close> the \<open>k\<close>-th value of
  \<open>random()\<close> (all counted from 0).
\<close>

record world =
  clock :: "nat \<Rightarrow> real"
  collisions :: "nat \<Rightarrow> response"
  random01 :: "nat \<Rightarrow> real"

text \<open>
  The local variables of \<open>run_autonomous_mission\<close> that change, how much of the world has
  been consumed (\<open>ticks\<close>, \<open>polls\<close>, \<open>draws\<close>), and the calls made so far.
\<close>

record mission =
  current_heading :: real
  last_collision_count :: int
  ticks :: nat
  polls :: nat
  draws :: nat
  calls :: "call list"

definition move_robot_relative :: "real \<Rightarrow> real \<Rightarrow> mission \<Rightarrow> mission" where
  "move_robot_relative turn_angle distance s =
     s\<lparr>calls := calls s @ [MoveRel turn_angle distance]\<rparr>"

definition sleep :: "real \<Rightarrow> mission \<Rightarrow> mission" where
  "sleep seconds s = s\<lparr>calls := calls s @ [Sleep seconds]\<rparr>"

text \<open>One call of \<open>get_collision_count()\<close>: the value it returns and the state after it.\<close>

definition poll_collision_count :: "world \<Rightarrow> mission \<Rightarrow> int \<times> mission" where
  "poll_collision_count w s =
     (get_collision_count (collisions w (polls s)),
      s\<lparr>polls := Suc (polls s), calls := calls s @ [GetCollisions]\<rparr>)"

subsection \<open>One poll cycle\<close>

text \<open>The seek branch's \<open>heading_error\<close> and \<open>turn_correction\<close>.\<close>

definition heading_error :: "real \<Rightarrow> real \<Rightarrow> real" where
  "heading_error target_heading heading = py_mod (target_heading - heading + 180) 360 - 180"

definition turn_correction :: "real \<Rightarrow> real \<Rightarrow> real" where
  "turn_correction target_heading heading =
     np_clip (heading_error target_heading heading) (- TURN_SPEED) TURN_SPEED"

text \<open>The \<open>if\<close> branch of the loop body: back up, turn by a random angle, move forward.\<close>

definition escape_sequence :: "world \<Rightarrow> mission \<Rightarrow> mission" where
  "escape_sequence w s =
     (let s1 = sleep 0.4 (move_robot_relative 0 AVOIDANCE_BACKUP s);
          random_turn = uniform 120 180 (random01 w (draws s1));
          s2 = move_robot_relative random_turn 0 (s1\<lparr>draws := Suc (draws s1)\<rparr>);
          s3 = sleep 0.4 (s2\<lparr>current_heading := py_mod (current_heading s2 + random_turn) 360\<rparr>)
      in sleep 0.4 (move_robot_relative 0 FORWARD_SPEED s3))"

text \<open>The \<open>else\<close> branch: one move that turns toward the target and goes forward.\<close>

definition seek_sequence :: "real \<Rightarrow> mission \<Rightarrow> mission" where
  "seek_sequence target_heading s =
     (let turn = turn_correction target_heading (current_heading s);
          s1 = move_robot_relative turn FORWARD_SPEED s
      in s1\<lparr>current_heading := py_mod (current_heading s1 + turn) 360\<rparr>)"

text \<open>
  The test of the loop body, on the value just read: \<open>current_collision_count >
  last_collision_count\<close>.
\<close>

definition collision_detected :: "int \<Rightarrow> mission \<Rightarrow> bool" where
  "collision_detected current_collision_count s \<longleftrightarrow>
     current_collision_count > last_collision_count s"

text \<open>
  The body of the \<open>while\<close> loop: read the count, escape or seek, read the count again as
  the next baseline, sleep.
\<close>

definition poll_cycle :: "world \<Rightarrow> real \<Rightarrow> mission \<Rightarrow> mission" where
  "poll_cycle w target_heading s =
     (let (current_collision_count, s1) = poll_collision_count w s;
          s2 = (if collision_detected current_collision_count s1 then escape_sequence w s1
                else seek_sequence target_heading s1);
          (refreshed, s3) = poll_collision_count w s2
      in sleep 0.3 (s3\<lparr>last_collision_count := refreshed\<rparr>))"

text \<open>The motion commands among the calls made, as (turn, distance), in order.\<close>

fun motion_commands :: "call list \<Rightarrow> (real \<times> real) list" where
  "motion_commands [] = []"
| "motion_commands (MoveRel turn_angle distance # cs) = (turn_angle, distance) # motion_commands cs"
| "motion_commands (c # cs) = motion_commands cs"

subsection \<open>The mission\<close>

datatype error = KeyError

definition target_headings :: "string \<rightharpoonup> int" where
  "target_headings =
     [''NE'' \<mapsto> 45, ''NW'' \<mapsto> 315, ''SE'' \<mapsto> 135, ''SW'' \<mapsto> 225]"

text \<open>
  The \<open>while\<close> loop. Each test of the guard reads the clock once; \<open>loop_iteration\<close> is
  a test that let the loop go on, followed by the body. The loop runs for as long as the
  clock says so, which may be forever: then the value is \<open>None\<close>.
\<close>

definition loop_iteration :: "world \<Rightarrow> real \<Rightarrow> mission \<Rightarrow> mission" where
  "loop_iteration w target_heading s = poll_cycle w target_heading (s\<lparr>ticks := Suc (ticks s)\<rparr>)"

partial_function (option) mission_loop :: "world \<Rightarrow> real \<Rightarrow> real \<Rightarrow> mission \<Rightarrow> mission option" where
  "mission_loop w target_heading start_time s =
     (if clock w (ticks s) - start_time < run_duration_seconds
      then mission_loop w target_heading start_time (loop_iteration w target_heading s)
      else Some (s\<lparr>ticks := Suc (ticks s)\<rparr>))"

text \<open>
  The state when the loop is entered: reset, goal placement and the one-second sleep are
  done, the heading estimate is 0, the clock has been read once (\<open>start_time\<close>) and the
  first baseline has been read.
\<close>

definition mission_start :: "world \<Rightarrow> string \<Rightarrow> mission" where
  "mission_start w goal_corner =
     \<lparr>current_heading = 0,
      last_collision_count = get_collision_count (collisions w 0),
      ticks = 1, polls = 1, draws = 0,
      calls = [Reset, SetGoal goal_corner, Sleep 1, GetCollisions]\<rparr>"

text \<open>After the loop: the stop command, the final read, and the value returned.\<close>

definition mission_end :: "world \<Rightarrow> mission \<Rightarrow> call list \<times> (error + int)" where
  "mission_end w s =
     (let (final_collisions, s') = poll_collision_count w (move_robot_relative 0 0 s)
      in (calls s', Inr final_collisions))"

text \<open>
  \<open>run_autonomous_mission\<close>: the calls made and the value returned, or the exception
  raised. \<open>None\<close> when the loop never ends.
\<close>

definition run_autonomous_mission :: "world \<Rightarrow> string \<Rightarrow> (call list \<times> (error + int)) option" where
  "run_autonomous_mission w goal_corner =
     (case target_headings goal_corner of
        None \<Rightarrow> Some ([Reset, SetGoal goal_corner, Sleep 1], Inl KeyError)
      | Some target_heading \<Rightarrow>
          map_option (mission_end w)
            (mission_loop w (real_of_int target_heading) (clock w 0) (mission_start w goal_corner)))"

subsection \<open>Scripted worlds\<close>

text \<open>
  Worlds for concrete runs. The simulator answers the collision-count requests with the
  listed outcomes, in order, and with a count of 0 once the list is used up; the clock
  advances 50 seconds between two readings, so that the loop body runs exactly once;
  \<open>random()\<close> always returns one half, so that every escape turns by 150 degrees.
\<close>

definition scripted_world :: "response list \<Rightarrow> world" where
  "scripted_world answers =
     \<lparr>clock = (\<lambda>k. 50 * real k),
      collisions = (\<lambda>k. if k < length answers then answers ! k else Object (Some 0)),
      random01 = (\<lambda>k. 1 / 2)\<rparr>"


section \<open>Arithmetic of the heading\<close>












section \<open>What one poll cycle does\<close>

lemma motion_commands_append:
  "motion_commands (xs @ ys) = motion_commands xs @ motion_commands ys"
  by (induction xs rule: motion_commands.induct) simp_all


lemmas cycle_defs =
  poll_cycle_def poll_collision_count_def collision_detected_def escape_sequence_def
  seek_sequence_def move_robot_relative_def sleep_def Let_def

lemma poll_cycle_escape:
  assumes "last_collision_count s < get_collision_count (collisions w (polls s))"
  shows "poll_cycle w t s =
    s\<lparr>current_heading := py_mod (current_heading s + uniform 120 180 (random01 w (draws s))) 360,
      last_collision_count := get_collision_count (collisions w (Suc (polls s))),
      polls := Suc (Suc (polls s)),
      draws := Suc (draws s),
      calls := calls s @
        [GetCollisions, MoveRel 0 AVOIDANCE_BACKUP, Sleep 0.4,
         MoveRel (uniform 120 180 (random01 w (draws s))) 0, Sleep 0.4,
         MoveRel 0 FORWARD_SPEED, Sleep 0.4, GetCollisions, Sleep 0.3]\<rparr>"
  using assms by (simp add: cycle_defs)

lemma poll_cycle_seek:
  assumes "\<not> last_collision_count s < get_collision_count (collisions w (polls s))"
  shows "poll_cycle w t s =
    s\<lparr>current_heading := py_mod (current_heading s + turn_correction t (current_heading s)) 360,
      last_collision_count := get_collision_count (collisions w (Suc (polls s))),
      polls := Suc (Suc (polls s)),
      calls := calls s @
        [GetCollisions, MoveRel (turn_correction t (current_heading s)) FORWARD_SPEED,
         GetCollisions, Sleep 0.3]\<rparr>"
  using assms by (simp add: cycle_defs)


lemma poll_cycle_ticks: "ticks (poll_cycle w t s) = ticks s"
  by (cases "last_collision_count s < get_collision_count (collisions w (polls s))")
     (simp_all add: poll_cycle_escape poll_cycle_seek)

lemma poll_cycle_polls: "polls (poll_cycle w t s) = Suc (Suc (polls s))"
  by (cases "last_collision_count s < get_collision_count (collisions w (polls s))")
     (simp_all add: poll_cycle_escape poll_cycle_seek)

lemma poll_cycle_baseline:
  "last_collision_count (poll_cycle w t s) = get_collision_count (collisions w (Suc (polls s)))"
  by (cases "last_collision_count s < get_collision_count (collisions w (polls s))")
     (simp_all add: poll_cycle_escape poll_cycle_seek)

lemma iterations_ticks: "ticks ((loop_iteration w t ^^ n) s) = ticks s + n"
  by (induction n) (simp_all add: loop_iteration_def poll_cycle_ticks)

lemma iterations_polls: "polls ((loop_iteration w t ^^ n) s) = polls s + 2 * n"
  by (induction n) (simp_all add: loop_iteration_def poll_cycle_polls)


lemma mission_loop_exit:
  assumes "\<forall>k<n. clock w (ticks s + k) - start < run_duration_seconds"
    and "\<not> clock w (ticks s + n) - start < run_duration_seconds"
  shows "mission_loop w t start s
           = Some (((loop_iteration w t ^^ n) s)\<lparr>ticks := Suc (ticks s + n)\<rparr>)"
  using assms
proof (induction n arbitrary: s)
  case 0
  then show ?case by (subst mission_loop.simps) simp
next
  case (Suc n)
  let ?s = "loop_iteration w t s"
  have tk: "ticks ?s = Suc (ticks s)" by (simp add: loop_iteration_def poll_cycle_ticks)
  have go: "clock w (ticks s) - start < run_duration_seconds" using Suc.prems(1) by force
  have "\<forall>k<n. clock w (ticks ?s + k) - start < run_duration_seconds"
  proof (intro allI impI)
    fix k assume "k < n"
    then have "Suc k < Suc n" by simp
    with Suc.prems(1) have "clock w (ticks s + Suc k) - start < run_duration_seconds" by blast
    then show "clock w (ticks ?s + k) - start < run_duration_seconds" by (simp add: tk)
  qed
  moreover have "\<not> clock w (ticks ?s + n) - start < run_duration_seconds"
    using Suc.prems(2) by (simp add: tk)
  ultimately have "mission_loop w t start ?s
      = Some (((loop_iteration w t ^^ n) ?s)\<lparr>ticks := Suc (ticks ?s + n)\<rparr>)"
    by (rule Suc.IH)
  then show ?case using go
    by (subst mission_loop.simps) (simp add: tk funpow_swap1)
qed

lemma get_collision_count_ge:
  assumes "\<And>c. r = Object (Some c) \<Longrightarrow> 0 \<le> c"
  shows "- 1 \<le> get_collision_count r"
  using assms by (cases r rule: get_collision_count.cases) simp_all

lemma iterations_baseline_ge:
  assumes "\<And>k c. collisions w k = Object (Some c) \<Longrightarrow> 0 \<le> c"
  shows "- 1 \<le> last_collision_count ((loop_iteration w t ^^ n) (mission_start w g))"
proof (cases n)
  case 0
  then show ?thesis using assms by (simp add: mission_start_def get_collision_count_ge)
next
  case (Suc m)
  then show ?thesis using assms
    by (simp add: loop_iteration_def poll_cycle_baseline get_collision_count_ge)
qed

lemma scripted_nonneg:
  assumes "\<forall>r \<in> set answers. \<forall>c. r = Object (Some c) \<longrightarrow> 0 \<le> c"
    and "collisions (scripted_world answers) k = Object (Some c)"
  shows "0 \<le> c"
proof (cases "k < length answers")
  case True
  then have "answers ! k \<in> set answers" by simp
  moreover have "answers ! k = Object (Some c)"
    using assms(2) True by (simp add: scripted_world_def)
  ultimately show ?thesis using assms(1) by metis
next
  case False
  then show ?thesis using assms(2) by (simp add: scripted_world_def)
qed


section \<open>The loop\<close>


lemma poll_cycle_no_stop:
  assumes "(0, 0) \<notin> set (motion_commands (calls s))" and "0 \<le> random01 w (draws s)"
  shows "(0, 0) \<notin> set (motion_commands (calls (poll_cycle w t s)))"
proof (cases "last_collision_count s < get_collision_count (collisions w (polls s))")
  case True
  have "120 \<le> uniform 120 180 (random01 w (draws s))"
    using assms(2) by (simp add: uniform_def)
  then show ?thesis using assms(1)
    by (simp add: poll_cycle_escape [OF True] motion_commands_append
        AVOIDANCE_BACKUP_def FORWARD_SPEED_def)
next
  case False
  then show ?thesis using assms(1)
    by (simp add: poll_cycle_seek motion_commands_append FORWARD_SPEED_def)
qed

lemma iterations_no_stop:
  assumes "\<forall>k. 0 \<le> random01 w k"
  shows "(0, 0) \<notin> set (motion_commands (calls ((loop_iteration w t ^^ n) (mission_start w g))))"
proof (induction n)
  case 0
  show ?case by (simp add: mission_start_def)
next
  case (Suc n)
  then show ?case using assms
    by (simp add: loop_iteration_def poll_cycle_no_stop)
qed

lemma mission_exit:
  assumes "target_headings g = Some th"
    and "\<forall>k<n. clock w (Suc k) - clock w 0 < run_duration_seconds"
    and "\<not> clock w (Suc n) - clock w 0 < run_duration_seconds"
  shows "mission_loop w (real_of_int th) (clock w 0) (mission_start w g)
           = Some (((loop_iteration w (real_of_int th) ^^ n) (mission_start w g))\<lparr>ticks := n + 2\<rparr>)"
    and "run_autonomous_mission w g
           = Some (calls ((loop_iteration w (real_of_int th) ^^ n) (mission_start w g))
                     @ [MoveRel 0 0, GetCollisions],
                   Inr (get_collision_count (collisions w (2 * n + 1))))"
proof -
  let ?s0 = "mission_start w g"
  have t0: "ticks ?s0 = 1" by (simp add: mission_start_def)
  have "mission_loop w (real_of_int th) (clock w 0) ?s0
      = Some (((loop_iteration w (real_of_int th) ^^ n) ?s0)\<lparr>ticks := Suc (ticks ?s0 + n)\<rparr>)"
    using assms(2,3) by (intro mission_loop_exit) (simp_all add: t0)
  then show loop: "mission_loop w (real_of_int th) (clock w 0) ?s0
      = Some (((loop_iteration w (real_of_int th) ^^ n) ?s0)\<lparr>ticks := n + 2\<rparr>)"
    by (simp add: t0)
  have "polls ((loop_iteration w (real_of_int th) ^^ n) ?s0) = 2 * n + 1"
    by (simp add: iterations_polls mission_start_def)
  then show "run_autonomous_mission w g
           = Some (calls ((loop_iteration w (real_of_int th) ^^ n) ?s0)
                     @ [MoveRel 0 0, GetCollisions],
                   Inr (get_collision_count (collisions w (2 * n + 1))))"
    using assms(1) loop
    by (simp add: run_autonomous_mission_def mission_end_def poll_collision_count_def
        move_robot_relative_def)
qed

section \<open>Runs of seek cycles\<close>




section \<open>Properties of the controller\<close>



text \<open>
  A run in which the collision count never rises, and the controller escapes all the
  same. The simulator answers 0, then fails twice, then answers 0 again. The first cycle
  reads the first failure and seeks; its refresh read is the second failure, and the
  baseline becomes -1, not the last valid count 0; the second cycle reads 0, which is
  greater than -1, and runs the escape sequence.
\<close>

theorem sentinel_baseline_counterexample:
  "last_collision_count
     (poll_cycle (scripted_world [Object (Some 0), NetworkError, NetworkError, Object (Some 0)]) 45
       (mission_start (scripted_world [Object (Some 0), NetworkError, NetworkError, Object (Some 0)]) ''NE''))
     = - 1
   \<and> motion_commands (calls
     (poll_cycle (scripted_world [Object (Some 0), NetworkError, NetworkError, Object (Some 0)]) 45
       (poll_cycle (scripted_world [Object (Some 0), NetworkError, NetworkError, Object (Some 0)]) 45
         (mission_start (scripted_world [Object (Some 0), NetworkError, NetworkError, Object (Some 0)]) ''NE''))))
     = [(25, 25), (0, - 25), (150, 0), (0, 25)]"
  by (simp add: cycle_defs mission_start_def scripted_world_def turn_correction_def
      heading_error_def py_mod_def np_clip_def uniform_def
      TURN_SPEED_def FORWARD_SPEED_def AVOIDANCE_BACKUP_def)

text \<open>
  C2, amended. When the simulator only ever reports non-negative counts, a poll cycle
  whose delta read fails (the sentinel -1) never runs the escape sequence: the stored
  baseline is at least -1 at every cycle of the mission, so the cycle issues the one seek
  command. This holds for every cycle, hence also when the delta reads of consecutive
  cycles fail. The baseline the next cycle compares with is whatever the refresh read
  returns, the sentinel included; no last valid count is kept.
\<close>

theorem failed_delta_read_seeks:
  assumes "\<forall>k c. collisions w k = Object (Some c) \<longrightarrow> 0 \<le> c"
    and "s = (loop_iteration w t ^^ n) (mission_start w g)"
    and "get_collision_count (collisions w (polls s)) = - 1"
  shows "calls (loop_iteration w t s) = calls s @
           [GetCollisions, MoveRel (turn_correction t (current_heading s)) 25,
            GetCollisions, Sleep 0.3]
       \<and> motion_commands (calls (loop_iteration w t s)) = motion_commands (calls s) @
           [(turn_correction t (current_heading s), 25)]
       \<and> last_collision_count (loop_iteration w t s)
           = get_collision_count (collisions w (Suc (polls s)))"
proof -
  have "- 1 \<le> last_collision_count s"
    unfolding assms(2) using assms(1) by (intro iterations_baseline_ge) blast
  then have "\<not> last_collision_count s < get_collision_count (collisions w (polls s))"
    using assms(3) by simp
  then show ?thesis
    by (simp add: loop_iteration_def poll_cycle_seek motion_commands_append FORWARD_SPEED_def)
qed

theorem failed_delta_read_seeks_witness:
  "get_collision_count (collisions
      (scripted_world [Object (Some 0), NetworkError, Object (Some 0), NetworkError]) 3) = - 1
   \<and> motion_commands (calls (loop_iteration
        (scripted_world [Object (Some 0), NetworkError, Object (Some 0), NetworkError]) 45
        ((loop_iteration
           (scripted_world [Object (Some 0), NetworkError, Object (Some 0), NetworkError]) 45 ^^ Suc 0)
           (mission_start
             (scripted_world [Object (Some 0), NetworkError, Object (Some 0), NetworkError]) ''NE''))))
       = [(25, 25), (20, 25)]"
proof -
  let ?w = "scripted_world [Object (Some 0), NetworkError, Object (Some 0), NetworkError]"
  let ?s = "(loop_iteration ?w 45 ^^ Suc 0) (mission_start ?w ''NE'')"
  have "\<And>k c. collisions ?w k = Object (Some c) \<Longrightarrow> 0 \<le> c"
    by (rule scripted_nonneg [where answers = "[Object (Some 0), NetworkError, Object (Some 0), NetworkError]"])
       simp_all
  then have nonneg: "\<forall>k c. collisions ?w k = Object (Some c) \<longrightarrow> 0 \<le> c" by blast
  have p: "polls ?s = 3" by (simp add: loop_iteration_def poll_cycle_polls mission_start_def)
  have f: "get_collision_count (collisions ?w 3) = - 1" by (simp add: scripted_world_def)
  have first: "\<not> last_collision_count (mission_start ?w ''NE'')
      < get_collision_count (collisions ?w (polls (mission_start ?w ''NE'')))"
    by (simp add: mission_start_def scripted_world_def)
  have tc0: "turn_correction 45 0 = 25"
    by (simp add: turn_correction_def heading_error_def py_mod_def np_clip_def TURN_SPEED_def)
  have tc1: "turn_correction 45 25 = 20"
    by (simp add: turn_correction_def heading_error_def py_mod_def np_clip_def TURN_SPEED_def)
  have m: "py_mod 25 360 = 25" by (simp add: py_mod_def)
  have s: "motion_commands (calls ?s) = [(25, 25)]" "current_heading ?s = 25"
    using first
    by (simp_all add: loop_iteration_def poll_cycle_seek mission_start_def motion_commands_append
        tc0 m FORWARD_SPEED_def)
  have f': "get_collision_count (collisions ?w (polls ?s)) = - 1"
    unfolding p by (rule f)
  have "motion_commands (calls (loop_iteration ?w 45 ?s))
          = motion_commands (calls ?s) @ [(turn_correction 45 (current_heading ?s), 25)]"
    using failed_delta_read_seeks [OF nonneg refl f'] by blast
  then have "motion_commands (calls (loop_iteration ?w 45 ?s)) = [(25, 25), (20, 25)]"
    by (simp only: s tc1 append.simps)
  with f show ?thesis by blast
qed

text \<open>
  A response whose body is a JSON object without the \<open>count\<close> field is not a failure for
  \<open>get_collision_count\<close>: \<open>.get('count', 0)\<close> returns the default 0.
\<close>

theorem missing_count_field_counterexample:
  "get_collision_count (Object None) = 0 \<and> get_collision_count (Object None) \<noteq> - 1"
  by simp

text \<open>
  C3, amended. \<open>get_collision_count\<close> returns the count when the response is an object
  with a \<open>count\<close> field. It returns the sentinel -1 when the request raises, when the body
  is not JSON and when the JSON value is not an object. It returns 0 when the object has
  no \<open>count\<close> field.
\<close>

theorem get_collision_count_outcomes:
  "get_collision_count (Object (Some c)) = c
   \<and> get_collision_count NetworkError = - 1
   \<and> get_collision_count MalformedBody = - 1
   \<and> get_collision_count NotAnObject = - 1
   \<and> get_collision_count (Object None) = 0"
  by simp





text \<open>
  C6. Let the guard of the loop hold at its first \<open>n\<close> tests and fail at the next one,
  that is, the elapsed time first reaches the run duration of 90 seconds at test number
  \<open>n + 1\<close>. Then the loop ends there, after \<open>n\<close> poll cycles, whatever branch the last
  cycle took. The mission then issues one move with turn 0 and distance 0, reads the
  collision count once more and returns that value; nothing else follows. When
  \<open>random()\<close> stays in [0, 1), no move with turn 0 and distance 0 was issued inside the
  loop, so the stop command is the only one.
\<close>

theorem mission_stops_at_duration:
  assumes "target_headings g = Some th"
    and "\<forall>k<n. clock w (Suc k) - clock w 0 < 90"
    and "\<not> clock w (Suc n) - clock w 0 < 90"
  shows "(let s = (loop_iteration w (real_of_int th) ^^ n) (mission_start w g) in
          mission_loop w (real_of_int th) (clock w 0) (mission_start w g)
            = Some (s\<lparr>ticks := n + 2\<rparr>)
          \<and> run_autonomous_mission w g
            = Some (calls s @ [MoveRel 0 0, GetCollisions],
                    Inr (get_collision_count (collisions w (polls s))))
          \<and> ((\<forall>k. 0 \<le> random01 w k \<and> random01 w k < 1)
               \<longrightarrow> (0, 0) \<notin> set (motion_commands (calls s))))"
proof -
  let ?s = "(loop_iteration w (real_of_int th) ^^ n) (mission_start w g)"
  have p: "polls ?s = 2 * n + 1" by (simp add: iterations_polls mission_start_def)
  have a2: "\<forall>k<n. clock w (Suc k) - clock w 0 < run_duration_seconds"
    using assms(2) by (simp add: run_duration_seconds_def)
  have a3: "\<not> clock w (Suc n) - clock w 0 < run_duration_seconds"
    using assms(3) by (simp add: run_duration_seconds_def)
  have "(\<forall>k. 0 \<le> random01 w k \<and> random01 w k < 1)
          \<longrightarrow> (0, 0) \<notin> set (motion_commands (calls ?s))"
    by (simp add: iterations_no_stop)
  then show ?thesis
    using mission_exit [OF assms(1) a2 a3] by (simp only: Let_def p)
qed

theorem mission_stops_at_duration_witness:
  "target_headings ''NE'' = Some 45
   \<and> clock (scripted_world [Object (Some 2), Object (Some 3)]) 1
       - clock (scripted_world [Object (Some 2), Object (Some 3)]) 0 < 90
   \<and> \<not> clock (scripted_world [Object (Some 2), Object (Some 3)]) 2
         - clock (scripted_world [Object (Some 2), Object (Some 3)]) 0 < 90
   \<and> run_autonomous_mission (scripted_world [Object (Some 2), Object (Some 3)]) ''NE''
       = Some ([Reset, SetGoal ''NE'', Sleep 1, GetCollisions,
                GetCollisions, MoveRel 0 (- 25), Sleep 0.4, MoveRel 150 0, Sleep 0.4,
                MoveRel 0 25, Sleep 0.4, GetCollisions, Sleep 0.3,
                MoveRel 0 0, GetCollisions], Inr 0)"
proof -
  let ?w = "scripted_world [Object (Some 2), Object (Some 3)]"
  let ?s = "(loop_iteration ?w (real_of_int 45) ^^ Suc 0) (mission_start ?w ''NE'')"
  have tgt: "target_headings ''NE'' = Some 45" by (simp add: target_headings_def)
  have go: "\<forall>k<Suc 0. clock ?w (Suc k) - clock ?w 0 < 90" by (simp add: scripted_world_def)
  have stop: "\<not> clock ?w (Suc (Suc 0)) - clock ?w 0 < 90" by (simp add: scripted_world_def)
  have c1: "clock ?w 1 - clock ?w 0 < 90" by (simp add: scripted_world_def)
  have c2: "\<not> clock ?w 2 - clock ?w 0 < 90" by (simp add: scripted_world_def)
  have run: "run_autonomous_mission ?w ''NE''
      = Some (calls ?s @ [MoveRel 0 0, GetCollisions],
              Inr (get_collision_count (collisions ?w (polls ?s))))"
    using mission_stops_at_duration [OF tgt go stop] by (simp only: Let_def)
  have s: "calls ?s = [Reset, SetGoal ''NE'', Sleep 1, GetCollisions,
                GetCollisions, MoveRel 0 (- 25), Sleep 0.4, MoveRel 150 0, Sleep 0.4,
                MoveRel 0 25, Sleep 0.4, GetCollisions, Sleep 0.3]"
    by (simp add: loop_iteration_def cycle_defs mission_start_def scripted_world_def
        uniform_def AVOIDANCE_BACKUP_def FORWARD_SPEED_def)
  have p: "get_collision_count (collisions ?w (polls ?s)) = 0"
    by (simp add: loop_iteration_def poll_cycle_polls mission_start_def scripted_world_def)
  have "run_autonomous_mission ?w ''NE''
       = Some ([Reset, SetGoal ''NE'', Sleep 1, GetCollisions,
                GetCollisions, MoveRel 0 (- 25), Sleep 0.4, MoveRel 150 0, Sleep 0.4,
                MoveRel 0 25, Sleep 0.4, GetCollisions, Sleep 0.3,
                MoveRel 0 0, GetCollisions], Inr 0)"
    using run by (simp only: s p append.simps)
  with tgt c1 c2 show ?thesis by blast
qed

text \<open>
  The label \<open>XX\<close> is none of the four corners, and yet the mission has sent the reset
  and the goal-placement request, the latter with the invalid label, and has slept a
  second before the lookup of the target heading raises \<open>KeyError\<close>.
\<close>

theorem invalid_corner_counterexample:
  "''XX'' \<notin> {''NE'', ''NW'', ''SE'', ''SW''}
   \<and> run_autonomous_mission (scripted_world []) ''XX''
       = Some ([Reset, SetGoal ''XX'', Sleep 1], Inl KeyError)"
  by (simp add: run_autonomous_mission_def target_headings_def)

text \<open>
  C7, amended. For a goal corner that is not one of NE, NW, SE, SW the mission raises
  \<open>KeyError\<close> at the lookup of the target heading. By then it has sent the reset request
  and the goal-placement request with the invalid label and has slept one second; it has
  sent no motion command and no collision-count request.
\<close>

theorem invalid_corner_raises_after_setup:
  assumes "goal_corner \<notin> {''NE'', ''NW'', ''SE'', ''SW''}"
  shows "run_autonomous_mission w goal_corner
           = Some ([Reset, SetGoal goal_corner, Sleep 1], Inl KeyError)"
  using assms by (simp add: run_autonomous_mission_def target_headings_def)

theorem invalid_corner_raises_after_setup_witness:
  "''north'' \<notin> {''NE'', ''NW'', ''SE'', ''SW''}
   \<and> run_autonomous_mission (scripted_world [NetworkError]) ''north''
       = Some ([Reset, SetGoal ''north'', Sleep 1], Inl KeyError)"
proof -
  have h: "''north'' \<notin> {''NE'', ''NW'', ''SE'', ''SW''}" by simp
  from invalid_corner_raises_after_setup [OF h] h show ?thesis by blast
qed

text \<open>
  C8. The sentinel is stored as the baseline, and a successful read then looks like a
  collision. If the baseline read before the loop returns -1 and the delta read of the
  first cycle succeeds with a count \<open>c \<ge> 0\<close>, the first cycle runs the escape sequence.
  If the refresh read at the end of a cycle returns -1 and the delta read of the next
  cycle succeeds with a count \<open>c \<ge> 0\<close>, the stored baseline is -1 and the next cycle runs
  the escape sequence.
\<close>

theorem sentinel_baseline_forces_escape:
  assumes "0 \<le> c"
  shows "(get_collision_count (collisions w 0) = - 1 \<and> collisions w 1 = Object (Some c)
            \<longrightarrow> motion_commands (calls (poll_cycle w t (mission_start w g)))
                 = [(0, - 25), (uniform 120 180 (random01 w 0), 0), (0, 25)])
       \<and> (get_collision_count (collisions w (Suc (polls s))) = - 1
            \<and> collisions w (Suc (Suc (polls s))) = Object (Some c)
            \<longrightarrow> last_collision_count (poll_cycle w t s) = - 1
              \<and> motion_commands (calls (poll_cycle w t (poll_cycle w t s)))
                 = motion_commands (calls (poll_cycle w t s))
                   @ [(0, - 25), (uniform 120 180 (random01 w (draws (poll_cycle w t s))), 0), (0, 25)])"
proof (intro conjI impI)
  assume a: "get_collision_count (collisions w 0) = - 1 \<and> collisions w 1 = Object (Some c)"
  then have "last_collision_count (mission_start w g)
      < get_collision_count (collisions w (polls (mission_start w g)))"
    using assms by (simp add: mission_start_def)
  then show "motion_commands (calls (poll_cycle w t (mission_start w g)))
                 = [(0, - 25), (uniform 120 180 (random01 w 0), 0), (0, 25)]"
    by (simp add: poll_cycle_escape motion_commands_append mission_start_def
        AVOIDANCE_BACKUP_def FORWARD_SPEED_def)
next
  assume b: "get_collision_count (collisions w (Suc (polls s))) = - 1
            \<and> collisions w (Suc (Suc (polls s))) = Object (Some c)"
  then show "last_collision_count (poll_cycle w t s) = - 1"
    by (simp add: poll_cycle_baseline)
  let ?s = "poll_cycle w t s"
  have "last_collision_count ?s < get_collision_count (collisions w (polls ?s))"
    using b assms by (simp add: poll_cycle_baseline poll_cycle_polls)
  then show "motion_commands (calls (poll_cycle w t ?s))
                 = motion_commands (calls ?s)
                   @ [(0, - 25), (uniform 120 180 (random01 w (draws ?s)), 0), (0, 25)]"
    by (simp add: poll_cycle_escape motion_commands_append
        AVOIDANCE_BACKUP_def FORWARD_SPEED_def)
qed

theorem sentinel_baseline_forces_escape_witness:
  "get_collision_count (collisions
      (scripted_world [NetworkError, Object (Some 0), MalformedBody, Object (Some 0)]) 0) = - 1
   \<and> get_collision_count (collisions
      (scripted_world [NetworkError, Object (Some 0), MalformedBody, Object (Some 0)]) 2) = - 1
   \<and> motion_commands (calls (poll_cycle
        (scripted_world [NetworkError, Object (Some 0), MalformedBody, Object (Some 0)]) 45
        (mission_start
          (scripted_world [NetworkError, Object (Some 0), MalformedBody, Object (Some 0)]) ''NE'')))
       = [(0, - 25), (150, 0), (0, 25)]
   \<and> motion_commands (calls (poll_cycle
        (scripted_world [NetworkError, Object (Some 0), MalformedBody, Object (Some 0)]) 45
        (poll_cycle
          (scripted_world [NetworkError, Object (Some 0), MalformedBody, Object (Some 0)]) 45
          (mission_start
            (scripted_world [NetworkError, Object (Some 0), MalformedBody, Object (Some 0)]) ''NE''))))
       = [(0, - 25), (150, 0), (0, 25), (0, - 25), (150, 0), (0, 25)]"
proof -
  let ?w = "scripted_world [NetworkError, Object (Some 0), MalformedBody, Object (Some 0)]"
  let ?s = "mission_start ?w ''NE''"
  have c: "(0::int) \<le> 0" by simp
  have r0: "get_collision_count (collisions ?w 0) = - 1" by (simp add: scripted_world_def)
  have r1: "collisions ?w 1 = Object (Some 0)" by (simp add: scripted_world_def)
  have r2: "get_collision_count (collisions ?w 2) = - 1" by (simp add: scripted_world_def)
  have r2': "get_collision_count (collisions ?w (Suc (polls ?s))) = - 1"
    by (simp add: scripted_world_def mission_start_def)
  have r3: "collisions ?w (Suc (Suc (polls ?s))) = Object (Some 0)"
    by (simp add: scripted_world_def mission_start_def)
  have u: "\<And>k. uniform 120 180 (random01 ?w k) = 150"
    by (simp add: uniform_def scripted_world_def)
  note esc = sentinel_baseline_forces_escape [OF c, of ?w 45 "''NE''" ?s]
  have "motion_commands (calls (poll_cycle ?w 45 ?s))
          = [(0, - 25), (uniform 120 180 (random01 ?w 0), 0), (0, 25)]"
    using esc r0 r1 by blast
  then have first: "motion_commands (calls (poll_cycle ?w 45 ?s)) = [(0, - 25), (150, 0), (0, 25)]"
    by (simp only: u)
  have "motion_commands (calls (poll_cycle ?w 45 (poll_cycle ?w 45 ?s)))
          = motion_commands (calls (poll_cycle ?w 45 ?s))
            @ [(0, - 25), (uniform 120 180 (random01 ?w (draws (poll_cycle ?w 45 ?s))), 0), (0, 25)]"
    using esc r2' r3 by blast
  then have "motion_commands (calls (poll_cycle ?w 45 (poll_cycle ?w 45 ?s)))
          = [(0, - 25), (150, 0), (0, 25), (0, - 25), (150, 0), (0, 25)]"
    by (simp only: first u append.simps)
  with r0 r2 first show ?thesis by blast
qed

text \<open>
  C9. When the loop ends after \<open>n\<close> cycles, the value the mission returns is the value
  of collision-count request number \<open>2 * n + 1\<close> (counted from 0), the one request made
  after the loop, and of nothing else: a world with the same clock and the same outcome
  of that request gives the same result, whatever its other requests return. So a
  failed final read gives -1 even if every earlier read succeeded, and earlier failures
  do not change the result of a final read that succeeds.
\<close>

theorem mission_result_is_final_read:
  assumes "target_headings g = Some th"
    and "\<forall>k<n. clock w (Suc k) - clock w 0 < 90"
    and "\<not> clock w (Suc n) - clock w 0 < 90"
  shows "map_option snd (run_autonomous_mission w g)
           = Some (Inr (get_collision_count (collisions w (2 * n + 1))))
       \<and> (clock w' = clock w \<and> collisions w' (2 * n + 1) = collisions w (2 * n + 1)
            \<longrightarrow> map_option snd (run_autonomous_mission w' g)
                = map_option snd (run_autonomous_mission w g))"
proof -
  have a2: "\<forall>k<n. clock w (Suc k) - clock w 0 < run_duration_seconds"
    using assms(2) by (simp add: run_duration_seconds_def)
  have a3: "\<not> clock w (Suc n) - clock w 0 < run_duration_seconds"
    using assms(3) by (simp add: run_duration_seconds_def)
  have r: "map_option snd (run_autonomous_mission w g)
           = Some (Inr (get_collision_count (collisions w (2 * n + 1))))"
    by (simp add: mission_exit(2) [OF assms(1) a2 a3])
  have "map_option snd (run_autonomous_mission w' g)
                = map_option snd (run_autonomous_mission w g)"
    if same: "clock w' = clock w \<and> collisions w' (2 * n + 1) = collisions w (2 * n + 1)"
  proof -
    have b2: "\<forall>k<n. clock w' (Suc k) - clock w' 0 < run_duration_seconds"
      using a2 same by simp
    have b3: "\<not> clock w' (Suc n) - clock w' 0 < run_duration_seconds"
      using a3 same by simp
    show ?thesis using same
      by (simp add: mission_exit(2) [OF assms(1) a2 a3] mission_exit(2) [OF assms(1) b2 b3])
  qed
  with r show ?thesis by blast
qed

theorem mission_result_is_final_read_witness:
  "map_option snd (run_autonomous_mission
      (scripted_world [Object (Some 4), Object (Some 4), Object (Some 4), NetworkError]) ''SW'')
     = Some (Inr (- 1))
   \<and> map_option snd (run_autonomous_mission
      (scripted_world [NetworkError, MalformedBody, NotAnObject, Object (Some 7)]) ''SW'')
     = Some (Inr 7)
   \<and> map_option snd (run_autonomous_mission
      (scripted_world [Object (Some 1), Object (Some 2), Object (Some 3), Object (Some 7)]) ''SW'')
     = map_option snd (run_autonomous_mission
      (scripted_world [NetworkError, MalformedBody, NotAnObject, Object (Some 7)]) ''SW'')"
proof -
  let ?a = "scripted_world [Object (Some 4), Object (Some 4), Object (Some 4), NetworkError]"
  let ?b = "scripted_world [NetworkError, MalformedBody, NotAnObject, Object (Some 7)]"
  let ?c = "scripted_world [Object (Some 1), Object (Some 2), Object (Some 3), Object (Some 7)]"
  have tgt: "target_headings ''SW'' = Some 225" by (simp add: target_headings_def)
  have go: "\<forall>k<Suc 0. clock (scripted_world xs) (Suc k) - clock (scripted_world xs) 0 < 90" for xs
    by (simp add: scripted_world_def)
  have stop: "\<not> clock (scripted_world xs) (Suc (Suc 0)) - clock (scripted_world xs) 0 < 90" for xs
    by (simp add: scripted_world_def)
  have ra: "get_collision_count (collisions ?a (2 * Suc 0 + 1)) = - 1"
    by (simp add: scripted_world_def)
  have rb: "get_collision_count (collisions ?b (2 * Suc 0 + 1)) = 7"
    by (simp add: scripted_world_def)
  have same: "clock ?c = clock ?b \<and> collisions ?c (2 * Suc 0 + 1) = collisions ?b (2 * Suc 0 + 1)"
    by (simp add: scripted_world_def)
  have "map_option snd (run_autonomous_mission ?a ''SW'') = Some (Inr (- 1))"
    using mission_result_is_final_read [OF tgt go [where xs = "[Object (Some 4), Object (Some 4), Object (Some 4), NetworkError]"] stop, where w' = ?a] by (simp only: ra)
  moreover have "map_option snd (run_autonomous_mission ?b ''SW'') = Some (Inr 7)"
    using mission_result_is_final_read [OF tgt go [where xs = "[NetworkError, MalformedBody, NotAnObject, Object (Some 7)]"] stop, where w' = ?c] by (simp only: rb)
  moreover have "map_option snd (run_autonomous_mission ?c ''SW'')
      = map_option snd (run_autonomous_mission ?b ''SW'')"
    using mission_result_is_final_read [OF tgt go [where xs = "[NetworkError, MalformedBody, NotAnObject, Object (Some 7)]"] stop, where w' = ?c] same by blast
  ultimately show ?thesis by blast
qed



end
